theory Spec2Isabelle
  imports Main
begin

section \<open>The netatmo data sampler (data\_sampler.py)\<close>

text \<open>
  A shallow embedding of \<^verbatim>\<open>data_sampler.py\<close>. The four functions of the script are
  translated statement by statement. Everything the script does to its surroundings is
  made explicit in a record \<open>world\<close> that is passed through every call and returned,
  also when an exception is raised: an exception does not undo the writes and requests
  made before it. A result is a pair of \<open>error + value\<close> (\<open>Inl\<close> the raised exception)
  and the world reached.
\<close>

subsection \<open>Exceptions\<close>

text \<open>
  \<open>FileNotFoundError\<close> is the exception raised by the script itself (line 72),
  \<open>TypeError\<close> the one Python raises when a call does not bind every required parameter,
  \<open>IndexError\<close> the one raised by \<^verbatim>\<open>value[0]\<close> on an empty list. An exception raised
  inside a library the script calls (lnetatmo, json, pandas, datetime) is not caught by
  the script and reaches the caller unchanged: \<open>Propagated\<close> carries its name.
\<close>

datatype error = FileNotFoundError | TypeError | IndexError | Propagated string

type_synonym 'a raising = "string + 'a"

subsection \<open>Data\<close>

text \<open>
  A device descriptor is the dictionary the API delivers for a station or a module; the
  script reads its keys \<^verbatim>\<open>module_name\<close>, \<^verbatim>\<open>_id\<close> and \<^verbatim>\<open>data_type\<close>. A station carries the
  same keys and its modules under \<^verbatim>\<open>modules\<close>, so a station is a device with one more field.
\<close>

record device =
  module_name' :: string
  dev_id :: string
  data_type :: "string list"

record station = device +
  modules :: "device list"

text \<open>The keyword arguments of \<^verbatim>\<open>wsd.getMeasure\<close> (line 118).\<close>

record request =
  device_id :: string
  module_id :: string
  scale :: string
  mtype :: string
  date_begin :: int
  date_end :: int

text \<open>
  The body of a measurement response: a dictionary from the timestamp (a key of the JSON
  object) to the list of values measured then, in the order the API delivers it.
\<close>

type_synonym 'v body = "(string \<times> 'v list) list"

text \<open>
  The session handle: \<^verbatim>\<open>wsd.stations\<close> is a dictionary keyed by the station identifier,
  \<^verbatim>\<open>wsd.getMeasure\<close> answers a request with the response's body or raises.
\<close>

record 'v wsd =
  stations :: "(string \<times> station) list"
  getMeasure :: "request \<Rightarrow> 'v body raising"

text \<open>
  The data frame built in line 124 and the file \<^verbatim>\<open>to_csv(..., index=False)\<close> writes from
  it: the header with the column names and one row per entry, without an index column.
  How pandas prints a cell is not part of the model.
\<close>

record 'v DataFrame =
  DateTime :: "string list"
  Value :: "'v list"

record 'v csv =
  header :: "string list"
  rows :: "(string \<times> 'v) list"

definition to_csv :: "'v DataFrame \<Rightarrow> 'v csv" where
  "to_csv df = \<lparr>header = [''DateTime'', ''Value''], rows = zip (DateTime df) (Value df)\<rparr>"

text \<open>The credentials: a dictionary of strings. A path that the script opens and reads
  as JSON names no file, or a file that cannot be read (the exception named), or a file
  that holds a dictionary.\<close>

type_synonym auth = "(string \<times> string) list"

type_synonym authorization = string

datatype config_state = Missing | Unreadable string | Content auth

datatype net_call = ClientAuth_call auth | WSD_call authorization | getMeasure_call request

text \<open>
  The surroundings of a run: what \<^verbatim>\<open>json.load(open(path))\<close> finds at a path, the CSV
  files by path, which paths the file system accepts for writing (the script assumes the
  directory exists), the calls that went to the network in order, the lines printed, and
  the local clock, one reading per call of \<^verbatim>\<open>datetime.datetime.now()\<close>, in seconds.
\<close>

record 'v world =
  config_file :: "string \<Rightarrow> config_state"
  files :: "string \<rightharpoonup> 'v csv"
  writable :: "string \<Rightarrow> bool"
  network :: "net_call list"
  stdout :: "string list"
  clock :: "nat \<Rightarrow> int"
  reads :: nat

text \<open>
  The library functions the script calls and the directory of the script. \<open>strptime\<close>
  and \<open>strftime\<close> are the two conversions with the format \<^verbatim>\<open>%Y-%m-%d\<close>, between a date
  string and the number of its day; a \<^verbatim>\<open>datetime\<close> is a number of seconds, day \<open>d\<close>
  beginning at second \<open>86400 * d\<close>.
\<close>

record 'v lib =
  THISDIR :: string
  ClientAuth :: "auth \<Rightarrow> authorization raising"
  WSD :: "authorization \<Rightarrow> 'v wsd raising"
  toEpoch :: "string \<Rightarrow> int raising"
  toTimeString :: "string \<Rightarrow> string raising"
  strptime :: "string \<Rightarrow> int raising"
  strftime :: "int \<Rightarrow> string"

type_synonym ('a, 'v) result = "(error + 'a) \<times> 'v world"

subsection \<open>Python primitives\<close>

text \<open>\<^verbatim>\<open>os.path.join\<close> of two components (posixpath).\<close>

definition path_join :: "string \<Rightarrow> string \<Rightarrow> string" where
  "path_join a b =
     (if b \<noteq> [] \<and> hd b = CHR ''/'' then b
      else if a = [] \<or> last a = CHR ''/'' then a @ b
      else a @ ''/'' @ b)"

definition CONFIG_FILENAME :: string where
  "CONFIG_FILENAME = ''authorization.json''"

definition STOREDIR :: "'v lib \<Rightarrow> string" where
  "STOREDIR lib = path_join (THISDIR lib) ''data''"

text \<open>Truth value testing: \<^verbatim>\<open>not x\<close> holds of \<^verbatim>\<open>None\<close> and of an empty string or
  dictionary.\<close>

definition falsy :: "'a list option \<Rightarrow> bool" where
  "falsy x = (case x of None \<Rightarrow> True | Some v \<Rightarrow> v = [])"

text \<open>A list comprehension whose element expression may raise: the first exception ends it.\<close>

fun comprehension :: "('a \<Rightarrow> error + 'b) \<Rightarrow> 'a list \<Rightarrow> error + 'b list" where
  "comprehension f [] = Inr []"
| "comprehension f (x # xs) =
     (case f x of
        Inl e \<Rightarrow> Inl e
      | Inr y \<Rightarrow> (case comprehension f xs of Inl e \<Rightarrow> Inl e | Inr ys \<Rightarrow> Inr (y # ys)))"

text \<open>\<^verbatim>\<open>value[0]\<close>\<close>

definition subscript0 :: "'a list \<Rightarrow> error + 'a" where
  "subscript0 v = (case v of [] \<Rightarrow> Inl IndexError | x # _ \<Rightarrow> Inr x)"

definition propagate :: "'a raising \<Rightarrow> error + 'a" where
  "propagate r = (case r of Inl x \<Rightarrow> Inl (Propagated x) | Inr y \<Rightarrow> Inr y)"

text \<open>\<^verbatim>\<open>datetime.datetime.now()\<close> and \<^verbatim>\<open>print\<close>.\<close>

definition now :: "'v world \<Rightarrow> int \<times> 'v world" where
  "now w = (clock w (reads w), w\<lparr>reads := Suc (reads w)\<rparr>)"

definition print :: "string \<Rightarrow> 'v world \<Rightarrow> 'v world" where
  "print s w = w\<lparr>stdout := stdout w @ [s]\<rparr>"

text \<open>
  A positional argument of a call: given, or left out by the caller. Python binds the
  arguments to the parameters before it runs the body, and raises \<open>TypeError\<close> when a
  parameter without a default is left out.
\<close>

datatype 'a positional = Omitted | Passed 'a

subsection \<open>\_init\_wsd (lines 30 to 77)\<close>

definition init_wsd :: "'v lib \<Rightarrow> auth option \<Rightarrow> 'v world \<Rightarrow> ('v wsd, 'v) result" where
  "init_wsd lib auth w =
     (case (if falsy auth
            then (case config_file w (path_join (THISDIR lib) CONFIG_FILENAME) of
                    Missing \<Rightarrow> Inl FileNotFoundError
                  | Unreadable x \<Rightarrow> Inl (Propagated x)
                  | Content a \<Rightarrow> Inr a)
            else Inr (the auth)) of
        Inl e \<Rightarrow> (Inl e, w)
      | Inr auth' \<Rightarrow>
          (let w1 = w\<lparr>network := network w @ [ClientAuth_call auth']\<rparr>
           in case ClientAuth lib auth' of
                Inl x \<Rightarrow> (Inl (Propagated x), w1)
              | Inr authorization \<Rightarrow>
                  (let w2 = w1\<lparr>network := network w1 @ [WSD_call authorization]\<rparr>
                   in case WSD lib authorization of
                        Inl x \<Rightarrow> (Inl (Propagated x), w2)
                      | Inr wsd \<Rightarrow> (Inr wsd, w2))))"

subsection \<open>\_data\_sampler\_device (lines 79 to 126)\<close>

text \<open>The loop over the metric types, lines 116 to 126.\<close>

fun sample_mtypes ::
  "'v lib \<Rightarrow> 'v wsd \<Rightarrow> string \<Rightarrow> string \<Rightarrow> string \<Rightarrow> string \<Rightarrow> string \<Rightarrow> int \<Rightarrow> int \<Rightarrow>
   string list \<Rightarrow> 'v world \<Rightarrow> (unit, 'v) result" where
  "sample_mtypes lib wsd base ident name date dp tstart tend [] w = (Inr (), w)"
| "sample_mtypes lib wsd base ident name date dp tstart tend (mt # mtypes) w =
     (let req = \<lparr>device_id = base, module_id = ident, scale = ''max'', mtype = mt,
                 date_begin = tstart, date_end = tend\<rparr>;
          w1 = w\<lparr>network := network w @ [getMeasure_call req]\<rparr>
      in case getMeasure wsd req of
           Inl x \<Rightarrow> (Inl (Propagated x), w1)
         | Inr data \<Rightarrow>
             (case comprehension (\<lambda>key. propagate (toTimeString lib key)) (map fst data) of
                Inl e \<Rightarrow> (Inl e, w1)
              | Inr datetime \<Rightarrow>
                  (case comprehension subscript0 (map snd data) of
                     Inl e \<Rightarrow> (Inl e, w1)
                   | Inr values \<Rightarrow>
                       (let df = \<lparr>DateTime = datetime, Value = values\<rparr>;
                            path = path_join dp (date @ ''_'' @ name @ ''_'' @ mt @ ''.csv'')
                        in if writable w1 path
                           then sample_mtypes lib wsd base ident name date dp tstart tend mtypes
                                  (w1\<lparr>files := (files w1)(path \<mapsto> to_csv df)\<rparr>)
                           else (Inl (Propagated ''OSError''), w1)))))"

definition data_sampler_device ::
  "'v lib \<Rightarrow> 'v wsd \<Rightarrow> string \<Rightarrow> 'z device_scheme \<Rightarrow> string \<Rightarrow> string positional \<Rightarrow>
   'v world \<Rightarrow> (unit, 'v) result" where
  "data_sampler_device lib wsd base device date dp w =
     (case dp of
        Omitted \<Rightarrow> (Inl TypeError, w)
      | Passed dp' \<Rightarrow>
          (let name = module_name' device;
               ident = dev_id device;
               mtypes = data_type device
           in case toEpoch lib (date @ ''_00:00:01'') of
                Inl x \<Rightarrow> (Inl (Propagated x), w)
              | Inr tstart \<Rightarrow>
                  (case toEpoch lib (date @ ''_23:59:59'') of
                     Inl x \<Rightarrow> (Inl (Propagated x), w)
                   | Inr tend \<Rightarrow>
                       sample_mtypes lib wsd base ident name date dp' tstart tend mtypes w)))"

subsection \<open>data\_sampler\_stations (lines 129 to 173)\<close>

text \<open>A session object is true in a truth value test, so \<^verbatim>\<open>not wsd\<close> holds of \<open>None\<close>
  only. The value computed for \<^verbatim>\<open>dp_save\<close> in lines 161 and 162 is bound and not used.\<close>

text \<open>The loop over the modules of a station, lines 172 and 173. The call gives four
  arguments, as the call for the station itself in line 169 does.\<close>

fun sample_modules ::
  "'v lib \<Rightarrow> 'v wsd \<Rightarrow> string \<Rightarrow> string \<Rightarrow> device list \<Rightarrow> 'v world \<Rightarrow> (unit, 'v) result" where
  "sample_modules lib wsd base date [] w = (Inr (), w)"
| "sample_modules lib wsd base date (m # ms) w =
     (case data_sampler_device lib wsd base m date Omitted w of
        (Inl e, w') \<Rightarrow> (Inl e, w')
      | (Inr _, w') \<Rightarrow> sample_modules lib wsd base date ms w')"

text \<open>The loop over the stations, lines 165 to 173.\<close>

fun sample_stations ::
  "'v lib \<Rightarrow> 'v wsd \<Rightarrow> string \<Rightarrow> station list \<Rightarrow> 'v world \<Rightarrow> (unit, 'v) result" where
  "sample_stations lib wsd date [] w = (Inr (), w)"
| "sample_stations lib wsd date (s # ss) w =
     (let base = dev_id s
      in case data_sampler_device lib wsd base s date Omitted w of
           (Inl e, w') \<Rightarrow> (Inl e, w')
         | (Inr _, w') \<Rightarrow>
             (case sample_modules lib wsd base date (modules s) w' of
                (Inl e, w'') \<Rightarrow> (Inl e, w'')
              | (Inr _, w'') \<Rightarrow> sample_stations lib wsd date ss w''))"

definition data_sampler_stations ::
  "'v lib \<Rightarrow> 'v wsd option \<Rightarrow> string option \<Rightarrow> string option \<Rightarrow> 'v world \<Rightarrow> (unit, 'v) result" where
  "data_sampler_stations lib wsd date dp_save w =
     (case (case wsd of None \<Rightarrow> init_wsd lib None w | Some h \<Rightarrow> (Inr h, w)) of
        (Inl e, w1) \<Rightarrow> (Inl e, w1)
      | (Inr wsd', w1) \<Rightarrow>
          (let (date', w2) =
                 (if falsy date
                  then (let (t, w') = now w1 in (strftime lib ((t - 86400) div 86400), w'))
                  else (the date, w1));
               dp_save' = (if falsy dp_save then STOREDIR lib else the dp_save)
           in sample_stations lib wsd' date' (map snd (stations wsd')) w2))"

subsection \<open>data\_sampler\_stations\_period (lines 176 to 215)\<close>

text \<open>The loop of lines 211 to 215.\<close>

function period_loop :: "'v lib \<Rightarrow> 'v wsd \<Rightarrow> string \<Rightarrow> int \<Rightarrow> 'v world \<Rightarrow> (unit, 'v) result" where
  "period_loop lib wsd dp_save n w =
     (if n > 0
      then (let (t, w1) = now w;
                sday = strftime lib ((t - 86400 * n) div 86400);
                w2 = print sday w1
            in case data_sampler_stations lib (Some wsd) (Some sday) (Some dp_save) w2 of
                 (Inl e, w3) \<Rightarrow> (Inl e, w3)
               | (Inr _, w3) \<Rightarrow> period_loop lib wsd dp_save (n - 1) w3)
      else (Inr (), w))"
  by pat_completeness auto
termination
  by (relation "measure (\<lambda>(lib, wsd, dp_save, n, w). nat n)") auto

definition data_sampler_stations_period ::
  "'v lib \<Rightarrow> string \<Rightarrow> string option \<Rightarrow> 'v world \<Rightarrow> (unit, 'v) result" where
  "data_sampler_stations_period lib date_start dp_save w =
     (let dp_save' = (if falsy dp_save then STOREDIR lib else the dp_save)
      in case init_wsd lib None w of
           (Inl e, w1) \<Rightarrow> (Inl e, w1)
         | (Inr wsd, w1) \<Rightarrow>
             (case strptime lib date_start of
                Inl x \<Rightarrow> (Inl (Propagated x), w1)
              | Inr day0 \<Rightarrow>
                  (let d0 = 86400 * day0;
                       (d1, w2) = now w1;
                       n = (d1 - d0) div 86400
                   in period_loop lib wsd dp_save' n w2)))"

subsection \<open>A concrete account\<close>

text \<open>
  The station listing of the spec's scenario, a session that answers three metric types
  (two samples with a second packed value each for \<open>Temperature\<close>, no sample for
  \<open>Rain\<close>, a timestamp with an empty value list for \<open>Humidity\<close>), the library
  functions on the strings that occur on 2024-03-01 (day 19783, second 1709251200 in
  UTC), and a world in which it is 01:00 on 2024-03-03 and nothing has been written.
\<close>

definition scenario_station :: station where
  "scenario_station =
     \<lparr>module_name' = ''Outdoor'', dev_id = ''S1'', data_type = [''Temperature''],
      modules = [\<lparr>module_name' = ''Rain'', dev_id = ''M1'', data_type = [''Rain'']\<rparr>]\<rparr>"

definition example_getMeasure :: "request \<Rightarrow> int body raising" where
  "example_getMeasure r =
     (if mtype r = ''Temperature''
      then Inr [(''1709280000'', [215, 1]), (''1709283600'', [220, 2])]
      else if mtype r = ''Rain'' then Inr []
      else if mtype r = ''Humidity'' then Inr [(''1709280000'', [])]
      else Inl ''ApiError'')"

definition example_wsd :: "int wsd" where
  "example_wsd = \<lparr>stations = [(''S1'', scenario_station)], getMeasure = example_getMeasure\<rparr>"

definition example_device :: device where
  "example_device =
     \<lparr>module_name' = ''Outdoor'', dev_id = ''S1'',
      data_type = [''Temperature'', ''Rain'', ''Humidity'']\<rparr>"

definition example_module :: device where
  "example_module = \<lparr>module_name' = ''Rain'', dev_id = ''M1'', data_type = [''Rain'']\<rparr>"

definition example_auth :: auth where
  "example_auth =
     [(''clientID'', ''id''), (''clientSecret'', ''secret''), (''username'', ''user''),
      (''password'', ''pass''), (''scope'', ''read_station'')]"

definition example_lib :: "int lib" where
  "example_lib =
     \<lparr>THISDIR = ''/home/user/sampler'',
      ClientAuth = (\<lambda>a. Inr ''token''),
      WSD = (\<lambda>t. Inr example_wsd),
      toEpoch = (\<lambda>s. if s = ''2024-03-01_00:00:01'' then Inr 1709251201
                       else if s = ''2024-03-01_23:59:59'' then Inr 1709337599
                       else Inl ''ValueError''),
      toTimeString = (\<lambda>k. if k = ''1709280000'' then Inr ''2024-03-01_08:00:00''
                            else if k = ''1709283600'' then Inr ''2024-03-01_09:00:00''
                            else Inl ''ValueError''),
      strptime = (\<lambda>s. if s = ''2024-03-01'' then Inr 19783 else Inl ''ValueError''),
      strftime = (\<lambda>d. if d = 19783 then ''2024-03-01''
                        else if d = 19784 then ''2024-03-02'' else ''another day'')\<rparr>"

definition example_world :: "int world" where
  "example_world =
     \<lparr>config_file = (\<lambda>p. if p = ''/home/user/sampler/authorization.json''
                             then Content example_auth else Missing),
      files = Map.empty, writable = (\<lambda>p. True),
      network = [], stdout = [], clock = (\<lambda>k. 19785 * 86400 + 3600), reads = 0\<rparr>"

section \<open>Properties\<close>

subsection \<open>Auxiliary facts\<close>

lemma comprehension_subscript0:
  "comprehension subscript0 xs = (if [] \<in> set xs then Inl IndexError else Inr (map hd xs))"
  by (induction xs) (auto simp: subscript0_def split: list.splits)

lemma comprehension_total:
  "\<forall>x \<in> set xs. \<exists>y. f x = Inr y \<Longrightarrow> \<exists>ys. comprehension f xs = Inr ys"
  by (induction xs) auto

text \<open>Two metric types of one device and day never share a file.\<close>

lemma path_join_inj:
  assumes "path_join dp (date @ ''_'' @ name @ ''_'' @ m @ ''.csv'')
         = path_join dp (date @ ''_'' @ name @ ''_'' @ m' @ ''.csv'')"
  shows "m = m'"
proof -
  let ?b = "date @ ''_'' @ name @ ''_'' @ m @ ''.csv''"
  let ?b' = "date @ ''_'' @ name @ ''_'' @ m' @ ''.csv''"
  have hd: "hd ?b = hd ?b'" by (cases date) simp_all
  have ne: "?b \<noteq> []" "?b' \<noteq> []" by simp_all
  have "?b = ?b'"
    using assms hd ne unfolding path_join_def by (simp split: if_splits)
  then show ?thesis by simp
qed

text \<open>The loop over a list of metric types is the loop over its front, then over its rest.\<close>

lemma sample_mtypes_append:
  "sample_mtypes lib wsd base ident name date dp tstart tend (xs @ ys) w =
     (case sample_mtypes lib wsd base ident name date dp tstart tend xs w of
        (Inl e, w') \<Rightarrow> (Inl e, w')
      | (Inr u, w') \<Rightarrow> sample_mtypes lib wsd base ident name date dp tstart tend ys w')"
  by (induction xs arbitrary: w) (auto simp: Let_def split: sum.splits)

lemma sample_mtypes_writable:
  "writable (snd (sample_mtypes lib wsd base ident name date dp tstart tend ms w)) = writable w"
  by (induction ms arbitrary: w) (auto simp: Let_def split: sum.splits)



lemma sample_mtypes_files_other:
  "path_join dp (date @ ''_'' @ name @ ''_'' @ m @ ''.csv'') \<notin>
     (\<lambda>mt. path_join dp (date @ ''_'' @ name @ ''_'' @ mt @ ''.csv'')) ` set ms \<Longrightarrow>
   files (snd (sample_mtypes lib wsd base ident name date dp tstart tend ms w))
     (path_join dp (date @ ''_'' @ name @ ''_'' @ m @ ''.csv''))
   = files w (path_join dp (date @ ''_'' @ name @ ''_'' @ m @ ''.csv''))"
  by (induction ms arbitrary: w) (auto simp: Let_def split: sum.splits)

text \<open>A table written for a metric type stays: the same type is answered the same way
  again, and another type goes to another file.\<close>

lemma sample_mtypes_keeps:
  assumes "getMeasure wsd \<lparr>device_id = base, module_id = ident, scale = ''max'', mtype = m,
                 date_begin = tstart, date_end = tend\<rparr> = Inr data"
      and "comprehension (\<lambda>key. propagate (toTimeString lib key)) (map fst data) = Inr dts"
      and "comprehension subscript0 (map snd data) = Inr vs"
      and "files w (path_join dp (date @ ''_'' @ name @ ''_'' @ m @ ''.csv''))
             = Some (to_csv \<lparr>DateTime = dts, Value = vs\<rparr>)"
  shows "files (snd (sample_mtypes lib wsd base ident name date dp tstart tend ms w))
           (path_join dp (date @ ''_'' @ name @ ''_'' @ m @ ''.csv''))
         = Some (to_csv \<lparr>DateTime = dts, Value = vs\<rparr>)"
  using assms(4)
proof (induction ms arbitrary: w)
  case Nil
  then show ?case by simp
next
  case (Cons mt ms)
  show ?case
  proof (cases "mt = m")
    case True
    show ?thesis
      using Cons.prems assms(1-3) Cons.IH
      by (simp add: True Let_def)
  next
    case False
    then have ne: "path_join dp (date @ ''_'' @ name @ ''_'' @ mt @ ''.csv'')
                 \<noteq> path_join dp (date @ ''_'' @ name @ ''_'' @ m @ ''.csv'')"
      using path_join_inj by blast
    show ?thesis
      using Cons.prems Cons.IH ne
      by (simp add: Let_def split: sum.splits)
  qed
qed

text \<open>When the loop returns, every metric type in the list was answered without an empty
  value list.\<close>

lemma sample_mtypes_succeeded:
  assumes "fst (sample_mtypes lib wsd base ident name date dp tstart tend ms w) = Inr u"
      and "m \<in> set ms"
  shows "\<exists>data. getMeasure wsd \<lparr>device_id = base, module_id = ident, scale = ''max'', mtype = m,
                 date_begin = tstart, date_end = tend\<rparr> = Inr data \<and> [] \<notin> snd ` set data"
  using assms
proof (induction ms arbitrary: w)
  case Nil
  then show ?case by simp
next
  case (Cons mt ms)
  show ?case
  proof (cases "mt = m")
    case True
    show ?thesis
      using Cons.prems(1)
      by (auto simp: True Let_def comprehension_subscript0 split: sum.splits if_splits)
  next
    case False
    with Cons.prems(2) have "m \<in> set ms" by simp
    with Cons.prems(1) Cons.IH show ?thesis
      by (auto simp: Let_def split: sum.splits if_splits)
  qed
qed

text \<open>The table of a metric type whose turn comes after the types \<open>pre\<close> were sampled.\<close>

lemma data_sampler_device_written:
  assumes dt: "data_type device = pre @ mt # post"
      and pre: "fst (data_sampler_device lib wsd base (device\<lparr>data_type := pre\<rparr>) date
                  (Passed dp) w) = Inr ()"
      and t0: "toEpoch lib (date @ ''_00:00:01'') = Inr tstart"
      and t1: "toEpoch lib (date @ ''_23:59:59'') = Inr tend"
      and resp: "getMeasure wsd \<lparr>device_id = base, module_id = dev_id device, scale = ''max'',
                   mtype = mt, date_begin = tstart, date_end = tend\<rparr> = Inr data"
      and dts: "comprehension (\<lambda>key. propagate (toTimeString lib key)) (map fst data) = Inr dts"
      and vs: "comprehension subscript0 (map snd data) = Inr vs"
      and wr: "writable w (path_join dp (date @ ''_'' @ module_name' device @ ''_'' @ mt @ ''.csv''))"
  shows "files (snd (data_sampler_device lib wsd base device date (Passed dp) w))
           (path_join dp (date @ ''_'' @ module_name' device @ ''_'' @ mt @ ''.csv''))
         = Some (to_csv \<lparr>DateTime = dts, Value = vs\<rparr>)"
proof -
  let ?run = "sample_mtypes lib wsd base (dev_id device) (module_name' device) date dp tstart tend"
  let ?path = "path_join dp (date @ ''_'' @ module_name' device @ ''_'' @ mt @ ''.csv'')"
  let ?req = "\<lparr>device_id = base, module_id = dev_id device, scale = ''max'',
                   mtype = mt, date_begin = tstart, date_end = tend\<rparr>"
  obtain w1 where w1: "?run pre w = (Inr (), w1)"
    using pre t0 t1 by (cases "?run pre w") (simp add: data_sampler_device_def)
  have wr1: "writable w1 ?path"
    using wr sample_mtypes_writable [of lib wsd base "dev_id device" "module_name' device"
                date dp tstart tend pre w]
    by (simp add: w1)
  let ?w2 = "w1\<lparr>network := network w1 @ [getMeasure_call ?req],
                 files := (files w1)(?path \<mapsto> to_csv \<lparr>DateTime = dts, Value = vs\<rparr>)\<rparr>"
  have step: "?run (mt # post) w1 = ?run post ?w2"
    using resp dts vs wr1 by (simp add: Let_def)
  have "data_sampler_device lib wsd base device date (Passed dp) w = ?run post ?w2"
    using t0 t1 w1 step
    by (simp add: data_sampler_device_def Let_def dt sample_mtypes_append
          del: sample_mtypes.simps)
  moreover have "files (snd (?run post ?w2)) ?path = Some (to_csv \<lparr>DateTime = dts, Value = vs\<rparr>)"
    by (rule sample_mtypes_keeps [OF resp dts vs]) simp
  ultimately show ?thesis by simp
qed

text \<open>Sampling the first station of a listing raises \<open>TypeError\<close> at once: the call of
  line 169 leaves out the parameter \<open>dp\<close>.\<close>

lemma sample_stations_Cons: "sample_stations lib wsd date (s # ss) w = (Inl TypeError, w)"
  by (simp add: data_sampler_device_def)

lemma init_wsd_files: "files (snd (init_wsd lib auth w)) = files w"
  by (simp add: init_wsd_def Let_def split: sum.splits config_state.splits)

lemma period_loop_raises:
  assumes "0 < n" and "stations wsd \<noteq> []"
  shows "fst (period_loop lib wsd dp_save n w) = Inl TypeError
       \<and> stdout (snd (period_loop lib wsd dp_save n w))
           = stdout w @ [strftime lib ((clock w (reads w) - 86400 * n) div 86400)]
       \<and> files (snd (period_loop lib wsd dp_save n w)) = files w
       \<and> network (snd (period_loop lib wsd dp_save n w)) = network w"
proof -
  obtain s ss where ss: "map snd (stations wsd) = s # ss"
    using assms(2) by (cases "stations wsd") auto
  show ?thesis
    using assms(1)
    by (subst (1 2 3 4) period_loop.simps)
       (simp add: now_def Let_def data_sampler_stations_def print_def ss
          sample_stations_Cons
          del: period_loop.simps sample_stations.simps)
qed

text \<open>With no station in the listing the daily walker returns, and the loop of the period
  walker runs \<open>n\<close> times, printing one day each time.\<close>

lemma data_sampler_stations_empty_listing:
  assumes "stations wsd = []"
  shows "fst (data_sampler_stations lib (Some wsd) date dp_save w) = Inr ()
       \<and> stdout (snd (data_sampler_stations lib (Some wsd) date dp_save w)) = stdout w"
  using assms by (simp add: data_sampler_stations_def Let_def now_def split: prod.splits)

lemma period_loop_empty_listing:
  assumes "stations wsd = []"
  shows "fst (period_loop lib wsd dp_save n w) = Inr ()
       \<and> length (stdout (snd (period_loop lib wsd dp_save n w))) = length (stdout w) + nat n"
  using assms
proof (induction lib wsd dp_save n w rule: period_loop.induct)
  case (1 lib wsd dp_save n w)
  show ?case
  proof (cases "0 < n")
    case False
    then show ?thesis by (subst (1 2) period_loop.simps) simp
  next
    case True
    let ?sday = "strftime lib ((clock w (reads w) - 86400 * n) div 86400)"
    let ?w2 = "print ?sday (w\<lparr>reads := Suc (reads w)\<rparr>)"
    let ?r = "data_sampler_stations lib (Some wsd) (Some ?sday) (Some dp_save) ?w2"
    define w3 where "w3 = snd ?r"
    have r: "?r = (Inr (), w3)" and out: "stdout w3 = stdout ?w2"
      using data_sampler_stations_empty_listing [OF "1.prems", of lib "Some ?sday"
              "Some dp_save" ?w2]
      by (simp_all add: w3_def prod_eq_iff)
    have nw: "(clock w (reads w), w\<lparr>reads := Suc (reads w)\<rparr>) = now w"
      by (simp add: now_def)
    have step: "period_loop lib wsd dp_save n w = period_loop lib wsd dp_save (n - 1) w3"
      using True r by (subst period_loop.simps) (simp add: now_def Let_def del: period_loop.simps)
    have IH: "fst (period_loop lib wsd dp_save (n - 1) w3) = Inr ()
       \<and> length (stdout (snd (period_loop lib wsd dp_save (n - 1) w3)))
           = length (stdout w3) + nat (n - 1)"
      by (rule "1.IH" [OF True refl nw refl refl r [symmetric] refl "1.prems"])
    show ?thesis
      unfolding step using IH out True by (simp add: print_def nat_diff_distrib)
  qed
qed

lemmas example_defs = example_lib_def example_wsd_def example_device_def example_module_def
  example_getMeasure_def example_world_def scenario_station_def example_auth_def

subsection \<open>The station walker\<close>

text \<open>
  C9. Whenever the session in use, the one supplied or the one just initialised, lists at
  least one station, \<open>data_sampler_stations\<close> raises \<open>TypeError\<close>: the call of
  \<open>_data_sampler_device\<close> gives four of its five arguments. No file has been written by
  then and no measurement has been requested, and the result is the same for every value
  of \<open>dp_save\<close>, which is computed and never used.
\<close>

theorem data_sampler_stations_TypeError:
  assumes "(case wsd of None \<Rightarrow> init_wsd lib None w | Some h \<Rightarrow> (Inr h, w)) = (Inr h, w1)"
      and "stations h \<noteq> []"
  shows "fst (data_sampler_stations lib wsd date dp_save w) = Inl TypeError
       \<and> files (snd (data_sampler_stations lib wsd date dp_save w)) = files w
       \<and> network (snd (data_sampler_stations lib wsd date dp_save w)) = network w1
       \<and> data_sampler_stations lib wsd date dp_save w
           = data_sampler_stations lib wsd date dp_save' w"
proof -
  obtain s ss where ss: "map snd (stations h) = s # ss"
    using assms(2) by (cases "stations h") auto
  have f: "files w1 = files w"
    using assms(1) init_wsd_files [of lib None w] by (cases wsd) auto
  show ?thesis
    using assms(1) ss f
    by (simp add: data_sampler_stations_def sample_stations_Cons now_def Let_def
          split: prod.splits del: sample_stations.simps)
qed

theorem data_sampler_stations_TypeError_witness:
  "stations example_wsd \<noteq> []
   \<and> fst (data_sampler_stations example_lib None None (Some ''out'') example_world) = Inl TypeError
   \<and> files (snd (data_sampler_stations example_lib None None (Some ''out'') example_world))
       = files example_world
   \<and> network (snd (data_sampler_stations example_lib None None (Some ''out'') example_world))
       = [ClientAuth_call example_auth, WSD_call ''token'']"
proof -
  have h1: "(case None of None \<Rightarrow> init_wsd example_lib None example_world
             | Some h \<Rightarrow> (Inr h, example_world))
            = (Inr example_wsd,
               example_world\<lparr>network := [ClientAuth_call example_auth, WSD_call ''token'']\<rparr>)"
    by (simp add: init_wsd_def falsy_def Let_def example_lib_def example_world_def path_join_def
          CONFIG_FILENAME_def)
  have h2: "stations example_wsd \<noteq> []"
    by (simp add: example_wsd_def)
  show ?thesis
    using h2 data_sampler_stations_TypeError [OF h1 h2, of None "Some ''out''"] by simp
qed

text \<open>
  C1. The scenario of the spec: the listing with station S1 (Outdoor, Temperature) and its
  module M1 (Rain, Rain), date 2024-03-01. Whatever the library, the measurements, the
  output directory and the world are, the call raises \<open>TypeError\<close> and leaves the world as
  it was: neither of the two files is written and no measurement is requested for M1.
\<close>

theorem scenario_raises_TypeError:
  "data_sampler_stations lib
     (Some \<lparr>stations = [(''S1'', scenario_station)], getMeasure = g\<rparr>)
     (Some ''2024-03-01'') dp_save w
   = (Inl TypeError, w)"
  by (simp add: data_sampler_stations_def sample_stations_Cons falsy_def Let_def
        del: sample_stations.simps)

text \<open>
  C2. The output directory never reaches the device sampler. With the scenario's listing
  the walker raises \<open>TypeError\<close> and leaves the world as it was, with \<open>dp_save\<close> given and
  without it, so no file appears under either directory; the device sampler itself, called
  with the directory as its fifth argument, writes the station's table under it.
\<close>

theorem dp_save_not_passed:
  "data_sampler_stations example_lib (Some example_wsd) (Some ''2024-03-01'') (Some ''out'')
     example_world = (Inl TypeError, example_world)
   \<and> data_sampler_stations example_lib (Some example_wsd) (Some ''2024-03-01'') None
       example_world = (Inl TypeError, example_world)
   \<and> files example_world = Map.empty
   \<and> files (snd (data_sampler_device example_lib example_wsd ''S1'' scenario_station
                   ''2024-03-01'' (Passed ''out'') example_world))
         ''out/2024-03-01_Outdoor_Temperature.csv''
       = Some \<lparr>header = [''DateTime'', ''Value''],
                rows = [(''2024-03-01_08:00:00'', 215), (''2024-03-01_09:00:00'', 220)]\<rparr>"
  by (simp add: data_sampler_stations_def sample_stations_Cons falsy_def Let_def example_defs
        data_sampler_device_def path_join_def to_csv_def propagate_def subscript0_def
      del: sample_stations.simps)

subsection \<open>The period walker\<close>

text \<open>
  C3. At 01:00 on 2024-03-03 with start date 2024-03-01 the day count \<open>n\<close> is 2, and the
  account has a station. The period walker prints the first day, calls the station walker
  for it, and ends with the \<open>TypeError\<close> that call raises: one day has been started, not
  two, and nothing has been written.
\<close>

theorem period_stops_after_first_day:
  "(clock example_world 0 - 86400 * 19783) div 86400 = 2
   \<and> fst (data_sampler_stations_period example_lib ''2024-03-01'' None example_world)
       = Inl TypeError
   \<and> stdout (snd (data_sampler_stations_period example_lib ''2024-03-01'' None example_world))
       = [''2024-03-01'']
   \<and> files (snd (data_sampler_stations_period example_lib ''2024-03-01'' None example_world))
       = Map.empty"
proof -
  let ?w2 = "example_world\<lparr>network := [ClientAuth_call example_auth, WSD_call ''token''],
                            reads := 1\<rparr>"
  have P: "data_sampler_stations_period example_lib ''2024-03-01'' None example_world
             = period_loop example_lib example_wsd (STOREDIR example_lib) 2 ?w2"
    by (simp add: data_sampler_stations_period_def init_wsd_def falsy_def Let_def now_def
          example_lib_def example_world_def path_join_def CONFIG_FILENAME_def
          del: period_loop.simps)
  have s: "stations example_wsd \<noteq> []"
    by (simp add: example_wsd_def)
  have n: "(0::int) < 2" by simp
  show ?thesis
    using period_loop_raises [OF n s, of example_lib "STOREDIR example_lib" ?w2]
    unfolding P by (simp add: example_lib_def example_world_def)
qed

subsection \<open>The device sampler\<close>




text \<open>
  C5. When the response for a metric type is \<open>{t1: [v1, extra1], t2: [v2, extra2]}\<close>, the
  table written for it holds exactly the two rows \<open>(timestamp t1, v1)\<close> and
  \<open>(timestamp t2, v2)\<close>: the first value of each list, the second one dropped. The metric
  type stands anywhere in the device's list; the types before it were sampled without an
  exception, and the file system accepts the path.
\<close>

theorem first_value_rows:
  assumes "data_type device = pre @ mt # post"
      and "fst (data_sampler_device lib wsd base (device\<lparr>data_type := pre\<rparr>) date
             (Passed dp) w) = Inr ()"
      and "toEpoch lib (date @ ''_00:00:01'') = Inr tstart"
      and "toEpoch lib (date @ ''_23:59:59'') = Inr tend"
      and "getMeasure wsd \<lparr>device_id = base, module_id = dev_id device, scale = ''max'',
                   mtype = mt, date_begin = tstart, date_end = tend\<rparr>
             = Inr [(t1, [v1, extra1]), (t2, [v2, extra2])]"
      and "toTimeString lib t1 = Inr s1" and "toTimeString lib t2 = Inr s2"
      and "writable w (path_join dp (date @ ''_'' @ module_name' device @ ''_'' @ mt @ ''.csv''))"
  shows "files (snd (data_sampler_device lib wsd base device date (Passed dp) w))
           (path_join dp (date @ ''_'' @ module_name' device @ ''_'' @ mt @ ''.csv''))
         = Some \<lparr>header = [''DateTime'', ''Value''], rows = [(s1, v1), (s2, v2)]\<rparr>"
proof -
  have "files (snd (data_sampler_device lib wsd base device date (Passed dp) w))
           (path_join dp (date @ ''_'' @ module_name' device @ ''_'' @ mt @ ''.csv''))
         = Some (to_csv \<lparr>DateTime = [s1, s2], Value = [v1, v2]\<rparr>)"
    using assms(6-8)
    by (intro data_sampler_device_written [OF assms(1-5)])
       (simp_all add: propagate_def subscript0_def)
  then show ?thesis by (simp add: to_csv_def)
qed

theorem first_value_rows_witness:
  "files (snd (data_sampler_device example_lib example_wsd ''S1'' example_device ''2024-03-01''
                 (Passed ''out'') example_world)) ''out/2024-03-01_Outdoor_Temperature.csv''
   = Some \<lparr>header = [''DateTime'', ''Value''],
            rows = [(''2024-03-01_08:00:00'', 215), (''2024-03-01_09:00:00'', 220)]\<rparr>"
proof -
  have h1: "data_type example_device = [] @ ''Temperature'' # [''Rain'', ''Humidity'']"
    by (simp add: example_device_def)
  have h2: "fst (data_sampler_device example_lib example_wsd ''S1''
                   (example_device\<lparr>data_type := []\<rparr>) ''2024-03-01'' (Passed ''out'')
                   example_world) = Inr ()"
    by (simp add: data_sampler_device_def Let_def example_defs)
  have h3: "toEpoch example_lib (''2024-03-01'' @ ''_00:00:01'') = Inr 1709251201"
    by (simp add: example_lib_def)
  have h4: "toEpoch example_lib (''2024-03-01'' @ ''_23:59:59'') = Inr 1709337599"
    by (simp add: example_lib_def)
  have h5: "getMeasure example_wsd \<lparr>device_id = ''S1'', module_id = dev_id example_device,
                scale = ''max'', mtype = ''Temperature'', date_begin = 1709251201,
                date_end = 1709337599\<rparr>
              = Inr [(''1709280000'', [215, 1]), (''1709283600'', [220, 2])]"
    by (simp add: example_wsd_def example_getMeasure_def)
  have h6: "toTimeString example_lib ''1709280000'' = Inr ''2024-03-01_08:00:00''"
    by (simp add: example_lib_def)
  have h7: "toTimeString example_lib ''1709283600'' = Inr ''2024-03-01_09:00:00''"
    by (simp add: example_lib_def)
  have h8: "writable example_world (path_join ''out''
              (''2024-03-01'' @ ''_'' @ module_name' example_device @ ''_'' @ ''Temperature''
                 @ ''.csv''))"
    by (simp add: example_world_def)
  show ?thesis
    using first_value_rows [OF h1 h2 h3 h4 h5 h6 h7 h8]
    by (simp add: path_join_def example_device_def)
qed

text \<open>
  C6. When the response for a metric type is the empty mapping, the file for it is written
  all the same and holds the header \<open>DateTime,Value\<close> and no row.
\<close>

theorem empty_response_header_only:
  assumes "data_type device = pre @ mt # post"
      and "fst (data_sampler_device lib wsd base (device\<lparr>data_type := pre\<rparr>) date
             (Passed dp) w) = Inr ()"
      and "toEpoch lib (date @ ''_00:00:01'') = Inr tstart"
      and "toEpoch lib (date @ ''_23:59:59'') = Inr tend"
      and "getMeasure wsd \<lparr>device_id = base, module_id = dev_id device, scale = ''max'',
                   mtype = mt, date_begin = tstart, date_end = tend\<rparr> = Inr []"
      and "writable w (path_join dp (date @ ''_'' @ module_name' device @ ''_'' @ mt @ ''.csv''))"
  shows "files (snd (data_sampler_device lib wsd base device date (Passed dp) w))
           (path_join dp (date @ ''_'' @ module_name' device @ ''_'' @ mt @ ''.csv''))
         = Some \<lparr>header = [''DateTime'', ''Value''], rows = []\<rparr>"
proof -
  have "files (snd (data_sampler_device lib wsd base device date (Passed dp) w))
           (path_join dp (date @ ''_'' @ module_name' device @ ''_'' @ mt @ ''.csv''))
         = Some (to_csv \<lparr>DateTime = [], Value = []\<rparr>)"
    using assms(6)
    by (intro data_sampler_device_written [OF assms(1-5)]) simp_all
  then show ?thesis by (simp add: to_csv_def)
qed

theorem empty_response_header_only_witness:
  "files (snd (data_sampler_device example_lib example_wsd ''S1'' example_device ''2024-03-01''
                 (Passed ''out'') example_world)) ''out/2024-03-01_Outdoor_Rain.csv''
   = Some \<lparr>header = [''DateTime'', ''Value''], rows = []\<rparr>"
proof -
  have h1: "data_type example_device = [''Temperature''] @ ''Rain'' # [''Humidity'']"
    by (simp add: example_device_def)
  have h2: "fst (data_sampler_device example_lib example_wsd ''S1''
                   (example_device\<lparr>data_type := [''Temperature'']\<rparr>) ''2024-03-01''
                   (Passed ''out'') example_world) = Inr ()"
    by (simp add: data_sampler_device_def Let_def example_defs propagate_def subscript0_def)
  have h3: "toEpoch example_lib (''2024-03-01'' @ ''_00:00:01'') = Inr 1709251201"
    by (simp add: example_lib_def)
  have h4: "toEpoch example_lib (''2024-03-01'' @ ''_23:59:59'') = Inr 1709337599"
    by (simp add: example_lib_def)
  have h5: "getMeasure example_wsd \<lparr>device_id = ''S1'', module_id = dev_id example_device,
                scale = ''max'', mtype = ''Rain'', date_begin = 1709251201,
                date_end = 1709337599\<rparr> = Inr []"
    by (simp add: example_wsd_def example_getMeasure_def)
  have h6: "writable example_world (path_join ''out''
              (''2024-03-01'' @ ''_'' @ module_name' example_device @ ''_'' @ ''Rain'' @ ''.csv''))"
    by (simp add: example_world_def)
  show ?thesis
    using empty_response_header_only [OF h1 h2 h3 h4 h5 h6]
    by (simp add: path_join_def example_device_def)
qed



text \<open>
  C10. When the response for a metric type holds a timestamp whose value list is empty
  (and every timestamp converts, so that line 121 is passed), the device sampler raises
  \<open>IndexError\<close> at \<^verbatim>\<open>value[0]\<close>. The file of that metric type is as it was before the
  call, and the files are those the earlier metric types left.
\<close>

theorem empty_value_list_IndexError:
  assumes dt: "data_type device = pre @ mt # post"
      and pre: "fst (data_sampler_device lib wsd base (device\<lparr>data_type := pre\<rparr>) date
                  (Passed dp) w) = Inr ()"
      and t0: "toEpoch lib (date @ ''_00:00:01'') = Inr tstart"
      and t1: "toEpoch lib (date @ ''_23:59:59'') = Inr tend"
      and resp: "getMeasure wsd \<lparr>device_id = base, module_id = dev_id device, scale = ''max'',
                   mtype = mt, date_begin = tstart, date_end = tend\<rparr> = Inr data"
      and keys: "\<forall>key \<in> fst ` set data. \<exists>s. toTimeString lib key = Inr s"
      and empty: "[] \<in> snd ` set data"
  shows "fst (data_sampler_device lib wsd base device date (Passed dp) w) = Inl IndexError
       \<and> files (snd (data_sampler_device lib wsd base device date (Passed dp) w))
           (path_join dp (date @ ''_'' @ module_name' device @ ''_'' @ mt @ ''.csv''))
         = files w (path_join dp (date @ ''_'' @ module_name' device @ ''_'' @ mt @ ''.csv''))
       \<and> files (snd (data_sampler_device lib wsd base device date (Passed dp) w))
         = files (snd (data_sampler_device lib wsd base (device\<lparr>data_type := pre\<rparr>) date
                         (Passed dp) w))"
proof -
  let ?run = "sample_mtypes lib wsd base (dev_id device) (module_name' device) date dp tstart tend"
  let ?path = "\<lambda>m. path_join dp (date @ ''_'' @ module_name' device @ ''_'' @ m @ ''.csv'')"
  let ?req = "\<lparr>device_id = base, module_id = dev_id device, scale = ''max'',
                   mtype = mt, date_begin = tstart, date_end = tend\<rparr>"
  have Dpre: "data_sampler_device lib wsd base (device\<lparr>data_type := pre\<rparr>) date (Passed dp) w
                = ?run pre w"
    using t0 t1 by (simp add: data_sampler_device_def Let_def)
  obtain w1 where w1: "?run pre w = (Inr (), w1)"
    using pre unfolding Dpre by (cases "?run pre w") simp
  have "\<forall>key \<in> set (map fst data). \<exists>y. propagate (toTimeString lib key) = Inr y"
    using keys by (auto simp: propagate_def)
  then have "\<exists>ys. comprehension (\<lambda>key. propagate (toTimeString lib key)) (map fst data) = Inr ys"
    by (rule comprehension_total)
  then obtain ys
    where ys: "comprehension (\<lambda>key. propagate (toTimeString lib key)) (map fst data) = Inr ys" ..
  have ie: "comprehension subscript0 (map snd data) = Inl IndexError"
    using empty by (simp add: comprehension_subscript0)
  have step: "?run (mt # post) w1
                = (Inl IndexError, w1\<lparr>network := network w1 @ [getMeasure_call ?req]\<rparr>)"
    using resp ys ie by (simp add: Let_def)
  have D: "data_sampler_device lib wsd base device date (Passed dp) w
             = (Inl IndexError, w1\<lparr>network := network w1 @ [getMeasure_call ?req]\<rparr>)"
    using t0 t1 w1 step
    by (simp add: data_sampler_device_def Let_def dt sample_mtypes_append
          del: sample_mtypes.simps)
  have "mt \<notin> set pre"
  proof
    assume "mt \<in> set pre"
    from sample_mtypes_succeeded [OF _ this, of lib wsd base "dev_id device"
           "module_name' device" date dp tstart tend w "()"]
    show False using w1 resp empty by auto
  qed
  then have "?path mt \<notin> ?path ` set pre"
    using path_join_inj by blast
  then have "files (snd (?run pre w)) (?path mt) = files w (?path mt)"
    by (rule sample_mtypes_files_other)
  then show ?thesis
    unfolding D Dpre by (simp add: w1)
qed

theorem empty_value_list_IndexError_witness:
  "fst (data_sampler_device example_lib example_wsd ''S1'' example_device ''2024-03-01''
          (Passed ''out'') example_world) = Inl IndexError
   \<and> files (snd (data_sampler_device example_lib example_wsd ''S1'' example_device
                   ''2024-03-01'' (Passed ''out'') example_world))
        ''out/2024-03-01_Outdoor_Humidity.csv'' = None"
proof -
  have h1: "data_type example_device = [''Temperature'', ''Rain''] @ ''Humidity'' # []"
    by (simp add: example_device_def)
  have h2: "fst (data_sampler_device example_lib example_wsd ''S1''
                   (example_device\<lparr>data_type := [''Temperature'', ''Rain'']\<rparr>) ''2024-03-01''
                   (Passed ''out'') example_world) = Inr ()"
    by (simp add: data_sampler_device_def Let_def example_defs propagate_def subscript0_def)
  have h3: "toEpoch example_lib (''2024-03-01'' @ ''_00:00:01'') = Inr 1709251201"
    by (simp add: example_lib_def)
  have h4: "toEpoch example_lib (''2024-03-01'' @ ''_23:59:59'') = Inr 1709337599"
    by (simp add: example_lib_def)
  have h5: "getMeasure example_wsd \<lparr>device_id = ''S1'', module_id = dev_id example_device,
                scale = ''max'', mtype = ''Humidity'', date_begin = 1709251201,
                date_end = 1709337599\<rparr> = Inr [(''1709280000'', [])]"
    by (simp add: example_wsd_def example_getMeasure_def)
  have h6: "\<forall>key \<in> fst ` set [(''1709280000'', [] :: int list)].
              \<exists>s. toTimeString example_lib key = Inr s"
    by (simp add: example_lib_def)
  have h7: "[] \<in> snd ` set [(''1709280000'', [] :: int list)]"
    by simp
  note T = empty_value_list_IndexError [OF h1 h2 h3 h4 h5 h6 h7]
  have a: "fst (data_sampler_device example_lib example_wsd ''S1'' example_device
             ''2024-03-01'' (Passed ''out'') example_world) = Inl IndexError"
    using T by (rule conjunct1)
  have b: "files (snd (data_sampler_device example_lib example_wsd ''S1'' example_device
                   ''2024-03-01'' (Passed ''out'') example_world))
        ''out/2024-03-01_Outdoor_Humidity.csv'' = None"
    using T [THEN conjunct2, THEN conjunct1]
    by (simp add: path_join_def example_device_def example_world_def)
  from a b show ?thesis by (rule conjI)
qed

subsection \<open>The session initialiser\<close>

text \<open>
  C8. \<open>_init_wsd\<close> raises its \<open>FileNotFoundError\<close> exactly when no credentials are supplied
  (\<^verbatim>\<open>not auth\<close>: \<open>None\<close>, or a dictionary without entries) and the credentials file, the
  file \<open>CONFIG_FILENAME\<close> in \<open>THISDIR\<close>, does not exist; the world is then as it was,
  nothing has gone to the network. When credentials
  \<open>a\<close> are at hand, supplied or read from the file, the next thing is the token exchange
  with \<open>a\<close>, and the call returns the handle the exchange and the session yield, or raises
  what they raise.
\<close>

theorem init_wsd_missing_configuration:
  "(fst (init_wsd lib auth w) = Inl FileNotFoundError
      \<longleftrightarrow> falsy auth \<and> config_file w (path_join (THISDIR lib) CONFIG_FILENAME) = Missing)
   \<and> (falsy auth \<and> config_file w (path_join (THISDIR lib) CONFIG_FILENAME) = Missing
        \<longrightarrow> snd (init_wsd lib auth w) = w)
   \<and> ((\<not> falsy auth \<and> auth = Some a)
        \<or> (falsy auth \<and> config_file w (path_join (THISDIR lib) CONFIG_FILENAME) = Content a)
      \<longrightarrow> take 1 (drop (length (network w)) (network (snd (init_wsd lib auth w))))
            = [ClientAuth_call a]
        \<and> fst (init_wsd lib auth w)
            = (case ClientAuth lib a of
                 Inl x \<Rightarrow> Inl (Propagated x)
               | Inr t \<Rightarrow> (case WSD lib t of Inl x \<Rightarrow> Inl (Propagated x) | Inr h \<Rightarrow> Inr h)))"
proof -
  let ?file = "config_file w (path_join (THISDIR lib) CONFIG_FILENAME)"
  have run: "init_wsd lib auth w =
      (case ClientAuth lib c of
         Inl x \<Rightarrow> (Inl (Propagated x), w\<lparr>network := network w @ [ClientAuth_call c]\<rparr>)
       | Inr t \<Rightarrow>
           (case WSD lib t of
              Inl x \<Rightarrow> (Inl (Propagated x),
                        w\<lparr>network := network w @ [ClientAuth_call c, WSD_call t]\<rparr>)
            | Inr h \<Rightarrow> (Inr h, w\<lparr>network := network w @ [ClientAuth_call c, WSD_call t]\<rparr>)))"
    if "(\<not> falsy auth \<and> auth = Some c) \<or> (falsy auth \<and> ?file = Content c)" for c
    using that by (auto simp: init_wsd_def Let_def split: sum.splits)
  have missing: "init_wsd lib auth w = (Inl FileNotFoundError, w)"
    if "falsy auth" "?file = Missing"
    using that by (simp add: init_wsd_def)
  have unreadable: "fst (init_wsd lib auth w) = Inl (Propagated x)"
    if "falsy auth" "?file = Unreadable x" for x
    using that by (simp add: init_wsd_def)
  have avail: "fst (init_wsd lib auth w) \<noteq> Inl FileNotFoundError
      \<and> take 1 (drop (length (network w)) (network (snd (init_wsd lib auth w))))
          = [ClientAuth_call c]
      \<and> fst (init_wsd lib auth w)
          = (case ClientAuth lib c of
               Inl x \<Rightarrow> Inl (Propagated x)
             | Inr t \<Rightarrow> (case WSD lib t of Inl x \<Rightarrow> Inl (Propagated x) | Inr h \<Rightarrow> Inr h))"
    if "(\<not> falsy auth \<and> auth = Some c) \<or> (falsy auth \<and> ?file = Content c)" for c
    unfolding run [OF that] by (simp split: sum.splits)
  have iff: "fst (init_wsd lib auth w) = Inl FileNotFoundError
               \<longleftrightarrow> falsy auth \<and> ?file = Missing"
  proof (cases "falsy auth")
    case True
    show ?thesis
    proof (cases ?file)
      case Missing
      then show ?thesis using True missing by simp
    next
      case (Unreadable x)
      then show ?thesis using True unreadable [of x] by simp
    next
      case (Content c)
      then show ?thesis using True avail [of c, THEN conjunct1] by simp
    qed
  next
    case False
    then obtain c where "auth = Some c"
      by (cases auth) (simp_all add: falsy_def)
    with False avail [of c, THEN conjunct1] show ?thesis by simp
  qed
  show ?thesis
    using iff missing avail [of a, THEN conjunct2] by simp
qed

theorem init_wsd_missing_configuration_witness:
  "fst (init_wsd example_lib None (example_world\<lparr>config_file := (\<lambda>p. Missing)\<rparr>))
     = Inl FileNotFoundError
   \<and> snd (init_wsd example_lib None (example_world\<lparr>config_file := (\<lambda>p. Missing)\<rparr>))
     = example_world\<lparr>config_file := (\<lambda>p. Missing)\<rparr>
   \<and> fst (init_wsd example_lib None example_world) \<noteq> Inl FileNotFoundError
   \<and> fst (init_wsd example_lib None example_world) = Inr example_wsd
   \<and> fst (init_wsd example_lib (Some example_auth)
            (example_world\<lparr>config_file := (\<lambda>p. Missing)\<rparr>))
     = Inr example_wsd"
proof -
  let ?nofile = "example_world\<lparr>config_file := (\<lambda>p. Missing)\<rparr>"
  have f: "falsy (None :: auth option)"
    by (simp add: falsy_def)
  have nf: "\<not> falsy (Some example_auth)"
    by (simp add: falsy_def example_auth_def)
  have m: "config_file ?nofile (path_join (THISDIR example_lib) CONFIG_FILENAME) = Missing"
    by simp
  have c: "config_file example_world (path_join (THISDIR example_lib) CONFIG_FILENAME)
             = Content example_auth"
    by (simp add: example_world_def example_lib_def path_join_def CONFIG_FILENAME_def)
  show ?thesis
    using init_wsd_missing_configuration [of example_lib None ?nofile example_auth]
          init_wsd_missing_configuration [of example_lib None example_world example_auth]
          init_wsd_missing_configuration [of example_lib "Some example_auth" ?nofile
            example_auth]
          f nf m c
    by (simp add: example_lib_def)
qed

end
